theory Spec2Isabelle
  imports Main
begin

section \<open>The document store\<close>

text \<open>
  Identifiers are document-store object ids. An object id is written as
  hexadecimal digits and is kept here as the string that \<^verbatim>\<open>toString()\<close>
  gives, with the digits in lower case, so that \<^verbatim>\<open>id.equals(other)\<close> and the
  value-wise \<^verbatim>\<open>includes\<close> of a document array are equality of strings.
\<close>

type_synonym oid = string

text \<open>
  A request carries an id as a string, which may write the digits in either
  case. \<^verbatim>\<open>new ObjectId(str)\<close> and the cast of a string that is stored or
  used in a filter read both; the object id they give is the string in
  lower case. Strings that are no object id are not considered.
\<close>

definition lower_hex :: "char \<Rightarrow> char" where
  "lower_hex c =
     (if c = CHR ''A'' then CHR ''a'' else if c = CHR ''B'' then CHR ''b''
      else if c = CHR ''C'' then CHR ''c'' else if c = CHR ''D'' then CHR ''d''
      else if c = CHR ''E'' then CHR ''e'' else if c = CHR ''F'' then CHR ''f''
      else c)"

definition ObjectId :: "string \<Rightarrow> oid" where
  "ObjectId str = map lower_hex str"

text \<open>
  \<^verbatim>\<open>User.ts\<close>: the fields of a user document that the follow and unfollow
  operations read or write. The schema gives both counters the default
  \<^verbatim>\<open>0\<close>, so a loaded document always carries a number there; a number may
  be negative, hence \<^typ>\<open>int\<close>.
\<close>

record user =
  username :: string
  followerCount :: int
  followingCount :: int
  followers :: "oid list"
  following :: "oid list"

text \<open>
  \<^verbatim>\<open>OOTDPost.ts\<close>: a comment and a post. Several documents have a field
  \<^verbatim>\<open>userId\<close>, \<^verbatim>\<open>type\<close> or \<^verbatim>\<open>name\<close>; here each carries the name of its
  document in front. The timestamp is the server's clock, in seconds.
\<close>

record comment =
  comment_userId :: oid
  comment_text :: string
  comment_timestamp :: nat

record post =
  post_userId :: oid
  imageURL :: string
  caption :: string
  likes :: "oid list"
  comments :: "comment list"
  saves :: "oid list"

text \<open>\<^verbatim>\<open>Notification.ts\<close>.\<close>

record notification =
  notification_userId :: oid
  notification_type :: string
  relatedId :: "oid option"
  isRead :: bool
  notification_message :: string

text \<open>
  \<^verbatim>\<open>Product.ts\<close>. The same record serves for a stored product and for
  \<^verbatim>\<open>Partial<ProductDocument>\<close>, the data of a request: \<open>None\<close> is a field
  that is not there. A stored product may lack any field, since updates
  run no validation. The price is a whole number here.
\<close>

record product =
  brand :: "string option"
  product_name :: "string option"
  product_type :: "string option"
  product_color :: "string option"
  product_season :: "string option"
  product_occasion :: "string option"
  price :: "int option"
  availability :: "string option"
  link :: "string option"
  category :: "string option"
  product_tags :: "string list option"
  product_image :: "string option"
  product_customImage :: "string option"
  source :: "string option"

text \<open>\<^verbatim>\<open>ClosetItem.ts\<close>, likewise for a stored item and for the data of a request.\<close>

record closet_item =
  item_userId :: "oid option"
  productId :: "oid option"
  item_name :: "string option"
  item_type :: "string option"
  item_color :: "string option"
  item_season :: "string option"
  item_occasion :: "string option"
  item_tags :: "string list option"
  customImage :: "string option"

text \<open>
  The collections. Users and posts are looked up by id only. Products and
  closet items are kept in insertion order, each with its \<^verbatim>\<open>_id\<close>, since
  \<^verbatim>\<open>findOne\<close> returns the first match. Notifications are only appended.
\<close>

record db =
  users :: "oid \<rightharpoonup> user"
  posts :: "oid \<rightharpoonup> post"
  notifications :: "notification list"
  products :: "(oid \<times> product) list"
  closetItems :: "(oid \<times> closet_item) list"

text \<open>What a controller sends back: the HTTP status and the JSON body.\<close>

datatype json =
    Message string
  | ErrorBody string
  | MessageCount string nat
  | MessageComments string "comment list"
  | MessageProduct string oid product

datatype response = Response (status: nat) (body: json)

text \<open>\<^verbatim>\<open>throw new Error(message)\<close>.\<close>

datatype error = Error string

section \<open>Follow and unfollow\<close>

text \<open>
  \<^verbatim>\<open>(count || 0)\<close> on a number: a falsy number is \<^verbatim>\<open>0\<close>.
\<close>

definition orZero :: "int \<Rightarrow> int" where
  "orZero c = (if c = 0 then 0 else c)"

text \<open>
  \<^verbatim>\<open>doc.save()\<close> writes the modified paths of the loaded copy back to the
  stored document of that id: the following list with its counter for the
  acting user, the followers list with its counter for the other user.
\<close>

definition save_following :: "db \<Rightarrow> oid \<Rightarrow> oid list \<Rightarrow> int \<Rightarrow> db" where
  "save_following s i fl c =
     s\<lparr>users := (users s)(i := map_option (\<lambda>u. u\<lparr>following := fl, followingCount := c\<rparr>) (users s i))\<rparr>"

definition save_followers :: "db \<Rightarrow> oid \<Rightarrow> oid list \<Rightarrow> int \<Rightarrow> db" where
  "save_followers s i fl c =
     s\<lparr>users := (users s)(i := map_option (\<lambda>u. u\<lparr>followers := fl, followerCount := c\<rparr>) (users s i))\<rparr>"

text \<open>
  \<^verbatim>\<open>followUserController\<close> and \<^verbatim>\<open>unfollowUserController\<close>, the handlers
  routed at \<^verbatim>\<open>POST /:id/follow\<close> and \<^verbatim>\<open>POST /:id/unfollow\<close>. Their first
  lines build object ids from the two strings of the request and nothing
  else uses the strings; the arguments here are those object ids.
\<close>

definition followUserController :: "db \<Rightarrow> oid \<Rightarrow> oid \<Rightarrow> response \<times> db" where
  "followUserController s userId followUserId =
     (if userId = followUserId
      then (Response 400 (Message ''You cannot follow yourself''), s)
      else case users s userId of
        None \<Rightarrow> (Response 404 (Message ''User not found''), s)
      | Some user \<Rightarrow>
         (case users s followUserId of
            None \<Rightarrow> (Response 404 (Message ''User not found''), s)
          | Some followUser \<Rightarrow>
              if followUserId \<in> set (following user)
              then (Response 400 (Message ''You already follow this user''), s)
              else
                let s1 = save_following s userId
                           (following user @ [followUserId])
                           (orZero (followingCount user) + 1);
                    s2 = save_followers s1 followUserId
                           (followers followUser @ [userId])
                           (orZero (followerCount followUser) + 1)
                in (Response 200 (Message (''You are now following '' @ username followUser)), s2)))"

definition unfollowUserController :: "db \<Rightarrow> oid \<Rightarrow> oid \<Rightarrow> response \<times> db" where
  "unfollowUserController s userId unfollowUserId =
     (if userId = unfollowUserId
      then (Response 400 (Message ''You cannot unfollow yourself''), s)
      else case users s userId of
        None \<Rightarrow> (Response 404 (Message ''User not found''), s)
      | Some user \<Rightarrow>
         (case users s unfollowUserId of
            None \<Rightarrow> (Response 404 (Message ''User not found''), s)
          | Some unfollowUser \<Rightarrow>
              if unfollowUserId \<notin> set (following user)
              then (Response 400 (Message ''You are not following this user''), s)
              else
                let s1 = save_following s userId
                           (filter (\<lambda>i. i \<noteq> unfollowUserId) (following user))
                           (max 0 (orZero (followingCount user) - 1));
                    s2 = save_followers s1 unfollowUserId
                           (filter (\<lambda>i. i \<noteq> userId) (followers unfollowUser))
                           (max 0 (orZero (followerCount unfollowUser) - 1))
                in (Response 200 (Message (''You have unfollowed '' @ username unfollowUser)), s2)))"

text \<open>
  \<^verbatim>\<open>followUser\<close> and \<^verbatim>\<open>unfollowUser\<close> of \<^verbatim>\<open>userService.ts\<close>. They
  throw when a user is missing and return nothing otherwise. Both documents
  are loaded before either is changed, and each copy is saved on its own.
\<close>

definition followUser :: "db \<Rightarrow> oid \<Rightarrow> oid \<Rightarrow> error + db" where
  "followUser s userId followUserId =
     (case users s userId of
        None \<Rightarrow> Inl (Error ''User not found'')
      | Some user \<Rightarrow>
         (case users s followUserId of
            None \<Rightarrow> Inl (Error ''User not found'')
          | Some followUser \<Rightarrow>
              let s1 = (if followUserId \<notin> set (following user)
                        then save_following s userId
                               (following user @ [followUserId])
                               (orZero (followingCount user) + 1)
                        else s);
                  s2 = (if userId \<notin> set (followers followUser)
                        then save_followers s1 followUserId
                               (followers followUser @ [userId])
                               (orZero (followerCount followUser) + 1)
                        else s1)
              in Inr s2))"

definition unfollowUser :: "db \<Rightarrow> oid \<Rightarrow> oid \<Rightarrow> error + db" where
  "unfollowUser s userId unfollowUserId =
     (case users s userId of
        None \<Rightarrow> Inl (Error ''User not found'')
      | Some user \<Rightarrow>
         (case users s unfollowUserId of
            None \<Rightarrow> Inl (Error ''User not found'')
          | Some unfollowUser \<Rightarrow>
              let s1 = save_following s userId
                         (filter (\<lambda>i. i \<noteq> unfollowUserId) (following user))
                         (max 0 (orZero (followingCount user) - 1));
                  s2 = save_followers s1 unfollowUserId
                         (filter (\<lambda>i. i \<noteq> userId) (followers unfollowUser))
                         (max 0 (orZero (followerCount unfollowUser) - 1))
              in Inr s2))"

text \<open>The data-model invariant: each counter is the length of its list.\<close>

definition mirrors :: "user \<Rightarrow> bool" where
  "mirrors u \<longleftrightarrow>
     followerCount u = int (length (followers u)) \<and>
     followingCount u = int (length (following u))"


subsection \<open>A small store for the concrete checks\<close>

definition alice :: user where
  "alice = \<lparr>username = ''alice'', followerCount = 0, followingCount = 0,
             followers = [], following = []\<rparr>"

definition bob :: user where
  "bob = \<lparr>username = ''bob'', followerCount = 0, followingCount = 0,
           followers = [], following = []\<rparr>"

definition carol :: user where
  "carol = \<lparr>username = ''carol'', followerCount = 0, followingCount = 0,
             followers = [], following = []\<rparr>"

definition db0 :: db where
  "db0 = \<lparr>users = [''a'' \<mapsto> alice, ''b'' \<mapsto> bob, ''c'' \<mapsto> carol],
           posts = Map.empty, notifications = [],
           products = [], closetItems = []\<rparr>"

text \<open>The store after \<^verbatim>\<open>a\<close> has followed \<^verbatim>\<open>c\<close>.\<close>

definition db1 :: db where
  "db1 = \<lparr>users = [''a'' \<mapsto> alice\<lparr>following := [''c''], followingCount := 1\<rparr>,
                    ''b'' \<mapsto> bob,
                    ''c'' \<mapsto> carol\<lparr>followers := [''a''], followerCount := 1\<rparr>],
           posts = Map.empty, notifications = [],
           products = [], closetItems = []\<rparr>"

text \<open>
  A store in which the follow of \<open>b\<close> by \<open>a\<close> is recorded on the side of \<open>a\<close>
  only, as after a follow whose second save failed, and \<open>c\<close> follows \<open>b\<close>.
\<close>

definition db4 :: db where
  "db4 = \<lparr>users = [''a'' \<mapsto> alice\<lparr>following := [''b''], followingCount := 1\<rparr>,
                    ''b'' \<mapsto> bob\<lparr>followers := [''c''], followerCount := 1\<rparr>,
                    ''c'' \<mapsto> carol\<lparr>following := [''b''], followingCount := 1\<rparr>],
           posts = Map.empty, notifications = [],
           products = [], closetItems = []\<rparr>"

section \<open>Likes, saves and comments\<close>

text \<open>The update operators \<^verbatim>\<open>$addToSet\<close>, \<^verbatim>\<open>$pull\<close> and \<^verbatim>\<open>$push\<close> on an array.\<close>

definition addToSet :: "'a list \<Rightarrow> 'a \<Rightarrow> 'a list" where
  "addToSet xs x = (if x \<in> set xs then xs else xs @ [x])"

definition pull :: "'a list \<Rightarrow> 'a \<Rightarrow> 'a list" where
  "pull xs x = filter (\<lambda>y. y \<noteq> x) xs"

definition push :: "'a list \<Rightarrow> 'a \<Rightarrow> 'a list" where
  "push xs x = xs @ [x]"

text \<open>
  \<^verbatim>\<open>Notification.create\<close> validates against the schema, where the type and
  the message are required strings (an empty string does not pass), and then
  inserts. \<^verbatim>\<open>createNotification\<close> of \<^verbatim>\<open>notificationService.ts\<close> rethrows
  any failure under a fixed message.
\<close>

definition Notification_create :: "db \<Rightarrow> notification \<Rightarrow> error + db" where
  "Notification_create s n =
     (if notification_type n = [] \<or> notification_message n = []
      then Inl (Error ''Notification validation failed'')
      else Inr (s\<lparr>notifications := notifications s @ [n]\<rparr>))"

definition createNotification :: "db \<Rightarrow> notification \<Rightarrow> error + db" where
  "createNotification s notificationData =
     (case Notification_create s notificationData of
        Inl e \<Rightarrow> Inl (Error ''Failed to create notification'')
      | Inr s' \<Rightarrow> Inr s')"

text \<open>
  The handlers of \<^verbatim>\<open>OOTDPostControllers.ts\<close>. \<^verbatim>\<open>findByIdAndUpdate\<close> with
  \<^verbatim>\<open>new: true\<close> hands back the post as updated, or nothing when the id
  resolves to no post. A failure of the notification is answered with 500
  after the post has been updated. The id of the post is used only as the
  object id it is cast to and is taken as that. The \<^verbatim>\<open>userId\<close> of the body
  is used in both ways by the like, save and comment handlers: cast to an
  object id where it is stored, and as the string of the request where it
  is compared with \<^verbatim>\<open>ootdPost.userId.toString()\<close> and put into the message.
  The unlike and unsave handlers and the functions of the service use it
  only cast, in \<^verbatim>\<open>$pull\<close> and \<^verbatim>\<open>$addToSet\<close>, and take the object id.
\<close>

definition likeOOTDPostController :: "db \<Rightarrow> oid \<Rightarrow> string \<Rightarrow> response \<times> db" where
  "likeOOTDPostController s ootdPostId userId =
     (case posts s ootdPostId of
        None \<Rightarrow> (Response 404 (Message ''OOTD post not found''), s)
      | Some p \<Rightarrow>
          let ootdPost = p\<lparr>likes := addToSet (likes p) (ObjectId userId)\<rparr>;
              s1 = s\<lparr>posts := (posts s)(ootdPostId \<mapsto> ootdPost)\<rparr>;
              ok = Response 200 (MessageCount ''Post liked successfully'' (length (likes ootdPost)))
          in if post_userId ootdPost \<noteq> userId
             then (case createNotification s1
                          \<lparr>notification_userId = post_userId ootdPost,
                           notification_type = ''like'',
                           relatedId = Some ootdPostId,
                           isRead = False,
                           notification_message = ''User '' @ userId @ '' liked your post.''\<rparr> of
                     Inl (Error m) \<Rightarrow> (Response 500 (ErrorBody m), s1)
                   | Inr s2 \<Rightarrow> (ok, s2))
             else (ok, s1))"

definition unlikeOOTDPostController :: "db \<Rightarrow> oid \<Rightarrow> oid \<Rightarrow> response \<times> db" where
  "unlikeOOTDPostController s ootdPostId userId =
     (case posts s ootdPostId of
        None \<Rightarrow> (Response 404 (Message ''OOTD post not found''), s)
      | Some p \<Rightarrow>
          let ootdPost = p\<lparr>likes := pull (likes p) userId\<rparr>;
              s1 = s\<lparr>posts := (posts s)(ootdPostId \<mapsto> ootdPost)\<rparr>
          in (Response 200 (MessageCount ''Like removed successfully'' (length (likes ootdPost))), s1))"

definition addCommentController :: "nat \<Rightarrow> db \<Rightarrow> oid \<Rightarrow> string \<Rightarrow> string \<Rightarrow> response \<times> db" where
  "addCommentController now s ootdPostId userId text =
     (case posts s ootdPostId of
        None \<Rightarrow> (Response 404 (Message ''OOTD post not found''), s)
      | Some p \<Rightarrow>
          let ootdPost = p\<lparr>comments := push (comments p)
                             \<lparr>comment_userId = ObjectId userId, comment_text = text,
                              comment_timestamp = now\<rparr>\<rparr>;
              s1 = s\<lparr>posts := (posts s)(ootdPostId \<mapsto> ootdPost)\<rparr>;
              ok = Response 200 (MessageComments ''Comment added successfully'' (comments ootdPost))
          in if post_userId ootdPost \<noteq> userId
             then (case createNotification s1
                          \<lparr>notification_userId = post_userId ootdPost,
                           notification_type = ''comment'',
                           relatedId = Some ootdPostId,
                           isRead = False,
                           notification_message =
                             ''User '' @ userId @ '' commented on your post: '' @
                             [CHR 0x22] @ text @ [CHR 0x22]\<rparr> of
                     Inl (Error m) \<Rightarrow> (Response 500 (ErrorBody m), s1)
                   | Inr s2 \<Rightarrow> (ok, s2))
             else (ok, s1))"

definition saveOOTDPostController :: "db \<Rightarrow> oid \<Rightarrow> string \<Rightarrow> response \<times> db" where
  "saveOOTDPostController s ootdPostId userId =
     (case posts s ootdPostId of
        None \<Rightarrow> (Response 404 (Message ''OOTD post not found''), s)
      | Some p \<Rightarrow>
          let ootdPost = p\<lparr>saves := addToSet (saves p) (ObjectId userId)\<rparr>;
              s1 = s\<lparr>posts := (posts s)(ootdPostId \<mapsto> ootdPost)\<rparr>;
              ok = Response 200 (MessageCount ''Post saved successfully'' (length (saves ootdPost)))
          in if post_userId ootdPost \<noteq> userId
             then (case createNotification s1
                          \<lparr>notification_userId = post_userId ootdPost,
                           notification_type = ''save'',
                           relatedId = Some ootdPostId,
                           isRead = False,
                           notification_message = ''User '' @ userId @ '' saved your post.''\<rparr> of
                     Inl (Error m) \<Rightarrow> (Response 500 (ErrorBody m), s1)
                   | Inr s2 \<Rightarrow> (ok, s2))
             else (ok, s1))"

definition unsaveOOTDPostController :: "db \<Rightarrow> oid \<Rightarrow> oid \<Rightarrow> response \<times> db" where
  "unsaveOOTDPostController s ootdPostId userId =
     (case posts s ootdPostId of
        None \<Rightarrow> (Response 404 (Message ''OOTD post not found''), s)
      | Some p \<Rightarrow>
          let ootdPost = p\<lparr>saves := pull (saves p) userId\<rparr>;
              s1 = s\<lparr>posts := (posts s)(ootdPostId \<mapsto> ootdPost)\<rparr>
          in (Response 200 (MessageCount ''Post unsaved successfully'' (length (saves ootdPost))), s1))"

text \<open>
  \<^verbatim>\<open>likeOOTDPost\<close> and \<^verbatim>\<open>unlikeOOTDPost\<close> of \<^verbatim>\<open>ootdPostService.ts\<close>: the
  same updates, handing back the updated post or nothing.
\<close>

definition likeOOTDPost :: "db \<Rightarrow> oid \<Rightarrow> oid \<Rightarrow> post option \<times> db" where
  "likeOOTDPost s postId userId =
     (case posts s postId of
        None \<Rightarrow> (None, s)
      | Some p \<Rightarrow>
          let updatedPost = p\<lparr>likes := addToSet (likes p) userId\<rparr>
          in (Some updatedPost, s\<lparr>posts := (posts s)(postId \<mapsto> updatedPost)\<rparr>))"

definition unlikeOOTDPost :: "db \<Rightarrow> oid \<Rightarrow> oid \<Rightarrow> post option \<times> db" where
  "unlikeOOTDPost s postId userId =
     (case posts s postId of
        None \<Rightarrow> (None, s)
      | Some p \<Rightarrow>
          let updatedPost = p\<lparr>likes := pull (likes p) userId\<rparr>
          in (Some updatedPost, s\<lparr>posts := (posts s)(postId \<mapsto> updatedPost)\<rparr>))"

text \<open>A post of \<open>b\<close>, liked by \<open>c\<close>, in the store of the three users.\<close>

definition post1 :: post where
  "post1 = \<lparr>post_userId = ''b'', imageURL = ''u.png'', caption = [],
             likes = [''c''], comments = [], saves = []\<rparr>"

definition db2 :: db where
  "db2 = db0\<lparr>posts := [''p'' \<mapsto> post1]\<rparr>"

text \<open>
  A post without likes, with the ids written out, and the id of its owner
  as a request may write it, in upper case.
\<close>

definition owner_id :: oid where
  "owner_id = ''64b7f3a2c9e1d4f5a6b7c8d9''"

definition owner_id_upper :: string where
  "owner_id_upper = ''64B7F3A2C9E1D4F5A6B7C8D9''"

definition post_id :: oid where
  "post_id = ''64b7f3a2c9e1d4f5a6b7c8e0''"

definition post2 :: post where
  "post2 = \<lparr>post_userId = owner_id, imageURL = ''u.png'', caption = [],
             likes = [], comments = [], saves = []\<rparr>"

definition db5 :: db where
  "db5 = db0\<lparr>posts := [post_id \<mapsto> post2]\<rparr>"

section \<open>Products and closet items\<close>

text \<open>
  Truthiness of an optional string and of an optional number, and \<^verbatim>\<open>a || b\<close>
  on optional strings: a missing value, the empty string and \<^verbatim>\<open>0\<close> are falsy.
\<close>

definition truthy :: "string option \<Rightarrow> bool" where
  "truthy v = (case v of None \<Rightarrow> False | Some x \<Rightarrow> x \<noteq> [])"


definition js_or :: "string option \<Rightarrow> string option \<Rightarrow> string option" where
  "js_or a b = (if truthy a then a else b)"






fun update_by_id :: "oid \<Rightarrow> ('a \<Rightarrow> 'a) \<Rightarrow> (oid \<times> 'a) list \<Rightarrow> (oid \<times> 'a) list" where
  "update_by_id i f [] = []"
| "update_by_id i f ((j, x) # xs) =
     (if j = i then (j, f x) # xs else (j, x) # update_by_id i f xs)"





text \<open>
  \<^verbatim>\<open>ClosetItem.create\<close>: the schema requires the user, type, color, season and
  occasion. \<^verbatim>\<open>createClosetItem\<close> of \<^verbatim>\<open>closetItemService.ts\<close> rethrows any
  failure under a fixed message.
\<close>

definition ClosetItem_valid :: "closet_item \<Rightarrow> bool" where
  "ClosetItem_valid d \<longleftrightarrow>
     truthy (item_userId d) \<and> truthy (item_type d) \<and> truthy (item_color d) \<and>
     truthy (item_season d) \<and> truthy (item_occasion d)"

definition ClosetItem_create ::
  "db \<Rightarrow> oid \<Rightarrow> closet_item \<Rightarrow> error + (oid \<times> closet_item) \<times> db" where
  "ClosetItem_create s newId d =
     (if ClosetItem_valid d
      then let doc = d\<lparr>item_tags := (case item_tags d of None \<Rightarrow> Some [] | Some t \<Rightarrow> Some t)\<rparr>
           in Inr ((newId, doc), s\<lparr>closetItems := closetItems s @ [(newId, doc)]\<rparr>)
      else Inl (Error ''ClosetItem validation failed''))"

definition createClosetItem ::
  "db \<Rightarrow> oid \<Rightarrow> closet_item \<Rightarrow> error + (oid \<times> closet_item) \<times> db" where
  "createClosetItem s newId closetItemData =
     (case
        (if truthy (productId closetItemData)
         then (case map_of (products s) (the (productId closetItemData)) of
                 None \<Rightarrow> Inl (Error ''Product not found'')
               | Some product \<Rightarrow>
                   Inr (closetItemData
                         \<lparr>item_type := js_or (product_type product) (item_type closetItemData),
                          item_color := js_or (product_color product) (item_color closetItemData),
                          item_season := js_or (product_season product) (item_season closetItemData),
                          item_occasion := js_or (product_occasion product) (item_occasion closetItemData),
                          customImage := js_or (product_image product) (customImage closetItemData),
                          item_name := js_or (product_name product) (item_name closetItemData)\<rparr>))
         else if \<not> truthy (item_name closetItemData)
         then Inl (Error (''Custom item requires a '' @ [CHR 0x27] @ ''name'' @ [CHR 0x27] @ '' field''))
         else Inr closetItemData) of
        Inl e \<Rightarrow> Inl (Error ''Failed to create closet item'')
      | Inr d \<Rightarrow>
          (case ClosetItem_create s newId d of
             Inl e \<Rightarrow> Inl (Error ''Failed to create closet item'')
           | Inr r \<Rightarrow> Inr r))"

text \<open>Two candidates of one name and brand that differ in color, a stored
  product without season and occasion, and a request for a closet item.\<close>

definition shirt_red :: product where
  "shirt_red = \<lparr>brand = Some ''acme'', product_name = Some ''shirt'',
                 product_type = Some ''top'', product_color = Some ''red'',
                 product_season = None, product_occasion = None,
                 price = Some 20, availability = None, link = Some ''l'',
                 category = None, product_tags = None, product_image = Some ''i.png'',
                 product_customImage = None, source = Some ''Clarifai''\<rparr>"


definition db3 :: db where
  "db3 = db0\<lparr>products := [(''7'', shirt_red)]\<rparr>"

definition item_req :: closet_item where
  "item_req = \<lparr>item_userId = Some ''a'', productId = Some ''7'', item_name = Some ''mine'',
                item_type = Some ''coat'', item_color = None,
                item_season = Some ''summer'', item_occasion = Some ''casual'',
                item_tags = None, customImage = None\<rparr>"

section \<open>Tokens\<close>

text \<open>
  \<^verbatim>\<open>AuthToken.ts\<close>. Signing and verifying belong to the token library; they
  are arguments here, each with the clock (in seconds) that the library
  reads. A request is its \<^verbatim>\<open>Authorization\<close> header and the \<^verbatim>\<open>userId\<close> of its
  body; a decoded token is its payload.
\<close>

record request =
  authorization :: "string option"
  body_userId :: "string option"

record payload =
  payload_userId :: "string option"

datatype outcome = Respond response | Next request

type_synonym jwt_sign = "nat \<Rightarrow> payload \<Rightarrow> string \<Rightarrow> string \<Rightarrow> string"

type_synonym jwt_verify = "nat \<Rightarrow> string option \<Rightarrow> string \<Rightarrow> error + payload"

text \<open>\<^verbatim>\<open>process.env.JWT_SECRET || 'default_secret_key'\<close>.\<close>

definition JWT_SECRET :: "string option \<Rightarrow> string" where
  "JWT_SECRET env = (case env of None \<Rightarrow> ''default_secret_key''
                     | Some k \<Rightarrow> if k = [] then ''default_secret_key'' else k)"

definition generateToken :: "jwt_sign \<Rightarrow> nat \<Rightarrow> string option \<Rightarrow> string \<Rightarrow> string" where
  "generateToken sign now env userId =
     sign now \<lparr>payload_userId = Some userId\<rparr> (JWT_SECRET env) ''1h''"

text \<open>
  \<^verbatim>\<open>authHeader.split(' ')[1]\<close>: the pieces of the header between single
  spaces, and the second of them if there is one.
\<close>

fun js_split :: "char \<Rightarrow> string \<Rightarrow> string list" where
  "js_split c [] = [[]]"
| "js_split c (x # xs) =
     (if x = c then [] # js_split c xs
      else (case js_split c xs of
              [] \<Rightarrow> [[x]]
            | w # ws \<Rightarrow> (x # w) # ws))"

definition at_index :: "'a list \<Rightarrow> nat \<Rightarrow> 'a option" where
  "at_index xs i = (if i < length xs then Some (xs ! i) else None)"

definition bearer_token :: "string \<Rightarrow> string option" where
  "bearer_token authHeader = at_index (js_split (CHR '' '') authHeader) 1"

definition verifyToken :: "jwt_verify \<Rightarrow> nat \<Rightarrow> string option \<Rightarrow> request \<Rightarrow> outcome" where
  "verifyToken verify now env req =
     (case authorization req of
        None \<Rightarrow> Respond (Response 401 (Message ''No token provided''))
      | Some authHeader \<Rightarrow>
          if authHeader = []
          then Respond (Response 401 (Message ''No token provided''))
          else
            (case verify now (bearer_token authHeader) (JWT_SECRET env) of
               Inl err \<Rightarrow> Respond (Response 403 (Message ''Failed to authenticate token''))
             | Inr decoded \<Rightarrow> Next (req\<lparr>body_userId := payload_userId decoded\<rparr>)))"

text \<open>
  What the library promises for the token that \<open>sign\<close> makes at time \<open>t\<close>
  for payload \<open>p\<close> under key \<open>k\<close>: the token has no space in it, and \<open>verify\<close>
  under the same key hands back the payload as long as the time span of the
  \<^verbatim>\<open>expiresIn\<close> option has not run out, and fails with an error from then
  on. The reading of
  a time span such as \<^verbatim>\<open>'1h'\<close> in seconds is the library's and an argument.
\<close>

definition honours ::
  "jwt_sign \<Rightarrow> jwt_verify \<Rightarrow> (string \<Rightarrow> nat) \<Rightarrow> nat \<Rightarrow> payload \<Rightarrow> string \<Rightarrow> bool" where
  "honours sign verify seconds t p k \<longleftrightarrow>
     (\<forall>e. CHR '' '' \<notin> set (sign t p k e)) \<and>
     (\<forall>e t'. if t' < t + seconds e
              then verify t' (Some (sign t p k e)) k = Inr p
              else isl (verify t' (Some (sign t p k e)) k))"

text \<open>A library in miniature for the concrete check: one token, good for
  user \<open>a\<close> until second 3600.\<close>

definition toy_sign :: jwt_sign where
  "toy_sign t p k e = ''tok''"

definition toy_verify :: jwt_verify where
  "toy_verify t' token k =
     (if token = Some ''tok'' \<and> t' < 3600
      then Inr \<lparr>payload_userId = Some ''a''\<rparr>
      else Inl (Error ''jwt expired''))"

subsection \<open>Properties of follow and unfollow\<close>

lemma users_save_following [simp]:
  "users (save_following s i fl c) =
     (users s)(i := map_option (\<lambda>u. u\<lparr>following := fl, followingCount := c\<rparr>) (users s i))"
  by (simp add: save_following_def)

lemma users_save_followers [simp]:
  "users (save_followers s i fl c) =
     (users s)(i := map_option (\<lambda>u. u\<lparr>followers := fl, followerCount := c\<rparr>) (users s i))"
  by (simp add: save_followers_def)

lemma filter_neq_notin: "x \<notin> set xs \<Longrightarrow> filter (\<lambda>i. i \<noteq> x) xs = xs"
  by (induction xs) auto

lemma two_updates_back:
  assumes "a \<noteq> b" and "us a = Some ua" and "us b = Some ub"
  shows "us(a \<mapsto> ua, b \<mapsto> ub) = us"
  using assms by (auto simp: fun_eq_iff)

lemma followUserController_ok:
  assumes "a \<noteq> b" and "users s a = Some ua" and "users s b = Some ub"
    and "b \<notin> set (following ua)"
  shows "followUserController s a b =
           (Response 200 (Message (''You are now following '' @ username ub)),
            save_followers
              (save_following s a (following ua @ [b]) (orZero (followingCount ua) + 1))
              b (followers ub @ [a]) (orZero (followerCount ub) + 1))"
  using assms by (simp add: followUserController_def Let_def)

lemma followUser_ok:
  assumes "users s a = Some ua" and "users s b = Some ub"
    and "b \<notin> set (following ua)" and "a \<notin> set (followers ub)"
  shows "followUser s a b =
           Inr (save_followers
                  (save_following s a (following ua @ [b]) (orZero (followingCount ua) + 1))
                  b (followers ub @ [a]) (orZero (followerCount ub) + 1))"
  using assms by (simp add: followUser_def Let_def)

lemma undo_saves:
  assumes "a \<noteq> b" and "users s a = Some ua" and "users s b = Some ub"
    and "b \<notin> set (following ua)" and "a \<notin> set (followers ub)"
    and "0 \<le> followingCount ua" and "0 \<le> followerCount ub"
    and "s1 = save_followers
                (save_following s a (following ua @ [b]) (orZero (followingCount ua) + 1))
                b (followers ub @ [a]) (orZero (followerCount ub) + 1)"
  shows "users s1 a = Some (ua\<lparr>following := following ua @ [b],
                               followingCount := orZero (followingCount ua) + 1\<rparr>)"
    and "users s1 b = Some (ub\<lparr>followers := followers ub @ [a],
                               followerCount := orZero (followerCount ub) + 1\<rparr>)"
    and "save_followers
           (save_following s1 a (filter (\<lambda>i. i \<noteq> b) (following ua @ [b]))
              (max 0 (orZero (orZero (followingCount ua) + 1) - 1)))
           b (filter (\<lambda>i. i \<noteq> a) (followers ub @ [a]))
           (max 0 (orZero (orZero (followerCount ub) + 1) - 1)) = s"
proof -
  show "users s1 a = Some (ua\<lparr>following := following ua @ [b],
                               followingCount := orZero (followingCount ua) + 1\<rparr>)"
    using assms by simp
  show "users s1 b = Some (ub\<lparr>followers := followers ub @ [a],
                               followerCount := orZero (followerCount ub) + 1\<rparr>)"
    using assms by simp
  have "(users s)(a \<mapsto> ua, b \<mapsto> ub) = users s"
    using assms(1-3) by (rule two_updates_back)
  then show "save_followers
           (save_following s1 a (filter (\<lambda>i. i \<noteq> b) (following ua @ [b]))
              (max 0 (orZero (orZero (followingCount ua) + 1) - 1)))
           b (filter (\<lambda>i. i \<noteq> a) (followers ub @ [a]))
           (max 0 (orZero (orZero (followerCount ub) + 1) - 1)) = s"
    using assms
    by (simp add: save_following_def save_followers_def filter_neq_notin orZero_def fun_upd_twist)
qed

text \<open>
  C1. Let \<open>a\<close> and \<open>b\<close> be distinct existing users such that \<open>a\<close> does not yet
  follow \<open>b\<close>: the relationship is recorded on neither side, and the two
  counters concerned hold counts, that is, they are not negative. Then the
  follow request succeeds, and the unfollow request after it succeeds and
  leaves the store exactly as it was before the follow; in particular the
  following list and \<^verbatim>\<open>followingCount\<close> of \<open>a\<close> and the followers list and
  \<^verbatim>\<open>followerCount\<close> of \<open>b\<close> are back at their old values. The same holds for
  the pair \<^verbatim>\<open>followUser\<close>, \<^verbatim>\<open>unfollowUser\<close> of the user service.
\<close>

theorem follow_then_unfollow_restores:
  assumes "a \<noteq> b" and "users s a = Some ua" and "users s b = Some ub"
    and "b \<notin> set (following ua)" and "a \<notin> set (followers ub)"
    and "0 \<le> followingCount ua" and "0 \<le> followerCount ub"
  shows "status (fst (followUserController s a b)) = 200 \<and>
         unfollowUserController (snd (followUserController s a b)) a b =
           (Response 200 (Message (''You have unfollowed '' @ username ub)), s) \<and>
         (\<exists>s1. followUser s a b = Inr s1 \<and> unfollowUser s1 a b = Inr s)"
proof -
  define s1 where "s1 = save_followers
                (save_following s a (following ua @ [b]) (orZero (followingCount ua) + 1))
                b (followers ub @ [a]) (orZero (followerCount ub) + 1)"
  note undo = undo_saves [OF assms s1_def]
  have f: "followUserController s a b =
             (Response 200 (Message (''You are now following '' @ username ub)), s1)"
    unfolding s1_def using assms(1-4) by (rule followUserController_ok)
  have g: "followUser s a b = Inr s1"
    unfolding s1_def using assms(2-5) by (rule followUser_ok)
  have u: "unfollowUserController s1 a b =
             (Response 200 (Message (''You have unfollowed '' @ username ub)), s)"
    using assms(1) undo(3)
    by (simp add: unfollowUserController_def Let_def undo(1,2)
          del: users_save_following users_save_followers)
  have v: "unfollowUser s1 a b = Inr s"
    using undo(3)
    by (simp add: unfollowUser_def Let_def undo(1,2)
          del: users_save_following users_save_followers)
  from f g u v show ?thesis by simp
qed

theorem follow_then_unfollow_restores_witness:
  "''a'' \<noteq> ''b'' \<and> users db0 ''a'' = Some alice \<and> users db0 ''b'' = Some bob \<and>
   ''b'' \<notin> set (following alice) \<and> ''a'' \<notin> set (followers bob) \<and>
   0 \<le> followingCount alice \<and> 0 \<le> followerCount bob \<and>
   status (fst (followUserController db0 ''a'' ''b'')) = 200 \<and>
   unfollowUserController (snd (followUserController db0 ''a'' ''b'')) ''a'' ''b'' =
     (Response 200 (Message ''You have unfollowed bob''), db0) \<and>
   (\<exists>s1. followUser db0 ''a'' ''b'' = Inr s1 \<and> unfollowUser s1 ''a'' ''b'' = Inr db0)"
  using follow_then_unfollow_restores [of "''a''" "''b''" db0 alice bob]
  by (simp add: db0_def alice_def bob_def)

text \<open>
  The handlers answer 400 when \<open>a\<close> already follows \<open>b\<close> (follow) and when
  \<open>a\<close> does not follow \<open>b\<close> (unfollow), and then leave the store as it was.
  A follow request whose actor and target are the same id is answered 400
  before the store is read.
\<close>

lemma handlers_conflicts:
  assumes "users s a = Some ua" and "users s b = Some ub"
  shows "(b \<in> set (following ua) \<longrightarrow>
            status (fst (followUserController s a b)) = 400 \<and>
            snd (followUserController s a b) = s) \<and>
         (b \<notin> set (following ua) \<longrightarrow>
            status (fst (unfollowUserController s a b)) = 400 \<and>
            snd (unfollowUserController s a b) = s)"
  using assms by (simp add: followUserController_def unfollowUserController_def)

lemma followUserController_self:
  "followUserController s u u = (Response 400 (Message ''You cannot follow yourself''), s)"
  by (simp add: followUserController_def)

text \<open>
  C2. A follow of a user already followed and an unfollow of a user not
  followed are meant to fail with a conflict and to change nothing. The two
  functions of the user service do neither. In the store \<open>db1\<close>, where \<open>a\<close>
  follows \<open>c\<close> and not \<open>b\<close>, \<^verbatim>\<open>followUser\<close> of \<open>c\<close> by \<open>a\<close> returns without
  an error (and leaves the store as it was), and \<^verbatim>\<open>unfollowUser\<close> of \<open>b\<close>
  by \<open>a\<close> returns without an error and lowers the counter of \<open>a\<close> from 1
  to 0.
\<close>

theorem service_raises_no_conflict:
  "users db1 ''a'' = Some (alice\<lparr>following := [''c''], followingCount := 1\<rparr>) \<and>
   users db1 ''b'' = Some bob \<and>
   users db1 ''c'' = Some (carol\<lparr>followers := [''a''], followerCount := 1\<rparr>) \<and>
   followUser db1 ''a'' ''c'' = Inr db1 \<and>
   (\<exists>s'. unfollowUser db1 ''a'' ''b'' = Inr s' \<and>
         map_option followingCount (users db1 ''a'') = Some 1 \<and>
         map_option followingCount (users s' ''a'') = Some 0)"
  by (simp add: followUser_def unfollowUser_def Let_def db1_def alice_def bob_def
        carol_def orZero_def)

text \<open>
  C5. A follow whose actor and target are the same user is meant to fail
  and to change nothing. \<^verbatim>\<open>followUser\<close> of the user service has no test
  for it: in the store \<open>db0\<close>, where nobody follows anybody, the follow of
  \<open>a\<close> by \<open>a\<close> returns without an error and records \<open>a\<close> in its own
  following and followers, with both counters at 1.
\<close>

theorem followUser_accepts_self_follow:
  "users db0 ''a'' = Some alice \<and> following alice = [] \<and> followers alice = [] \<and>
   (\<exists>s'. followUser db0 ''a'' ''a'' = Inr s' \<and>
         users s' ''a'' =
           Some (alice\<lparr>followerCount := 1, followingCount := 1,
                       followers := [''a''], following := [''a'']\<rparr>))"
  by (simp add: followUser_def Let_def db0_def alice_def orZero_def)

text \<open>
  The handlers keep each counter equal to the length of its list: the follow
  handler always, the unfollow handler when the relationship it removes is
  recorded once on both sides.
\<close>

lemma length_filter_neq_distinct:
  "distinct xs \<Longrightarrow> x \<in> set xs \<Longrightarrow>
     int (length (filter (\<lambda>i. i \<noteq> x) xs)) = int (length xs) - 1"
  by (induction xs) (auto simp: filter_neq_notin)

lemma max_length_pred:
  "x \<in> set xs \<Longrightarrow> max 0 (int (length xs) - 1) = int (length xs) - 1"
  by (cases xs) auto

lemma followUserController_mirrors:
  assumes "users s i = Some u" and "mirrors u"
    and "users (snd (followUserController s a b)) i = Some u'"
  shows "mirrors u'"
  using assms
  by (auto simp: followUserController_def Let_def mirrors_def orZero_def
           split: if_splits option.splits)

lemma unfollowUserController_mirrors:
  assumes "users s a = Some ua" and "users s b = Some ub"
    and "distinct (following ua)" and "distinct (followers ub)"
    and "b \<in> set (following ua) \<longleftrightarrow> a \<in> set (followers ub)"
    and "users s i = Some u" and "mirrors u"
    and "users (snd (unfollowUserController s a b)) i = Some u'"
  shows "mirrors u'"
  using assms
  by (auto simp: unfollowUserController_def Let_def mirrors_def orZero_def
                 length_filter_neq_distinct max_length_pred
           split: if_splits option.splits)

text \<open>
  C3. The counters are meant to mirror the list lengths after every follow
  and unfollow operation. \<^verbatim>\<open>unfollowUser\<close> of the user service does not
  keep this: it has no membership test, so it lowers the counters also when
  there is nothing to remove. In the store \<open>db1\<close>, where \<open>a\<close> follows \<open>c\<close>
  only and every counter equals the length of its list, unfollowing \<open>b\<close>
  leaves the following list of \<open>a\<close> at one entry and sets its counter to 0.
\<close>

theorem unfollowUser_decrements_without_follow:
  "mirrors (alice\<lparr>following := [''c''], followingCount := 1\<rparr>) \<and>
   users db1 ''a'' = Some (alice\<lparr>following := [''c''], followingCount := 1\<rparr>) \<and>
   ''b'' \<notin> set (following (alice\<lparr>following := [''c''], followingCount := 1\<rparr>)) \<and>
   (\<exists>s'. unfollowUser db1 ''a'' ''b'' = Inr s' \<and>
         map_option following (users s' ''a'') = Some [''c''] \<and>
         map_option followingCount (users s' ''a'') = Some 0)"
  by (simp add: unfollowUser_def Let_def db1_def alice_def bob_def mirrors_def orZero_def)

text \<open>
  The unfollow handler tests the following list of the actor only. Where
  the actor is missing from the followers of the other user, as in \<open>db4\<close>,
  it lowers that user's counter all the same: the followers of \<open>b\<close> stay at
  one entry and the counter goes to 0.
\<close>

lemma unfollowUserController_one_sided:
  "\<exists>s'. unfollowUserController db4 ''a'' ''b'' =
           (Response 200 (Message ''You have unfollowed bob''), s') \<and>
         map_option followers (users s' ''b'') = Some [''c''] \<and>
         map_option followerCount (users s' ''b'') = Some 0"
  by (simp add: unfollowUserController_def Let_def db4_def alice_def bob_def orZero_def)

text \<open>
  The service's \<^verbatim>\<open>followUser\<close> has no test for actor and target being the
  same user either: it records the user in its own two lists.
\<close>

lemma followUser_self:
  assumes "users s u = Some x"
  shows "\<exists>s'. followUser s u u = Inr s' \<and>
           map_option following (users s' u) =
             Some (if u \<in> set (following x) then following x else following x @ [u]) \<and>
           map_option followers (users s' u) =
             Some (if u \<in> set (followers x) then followers x else followers x @ [u])"
  using assms by (simp add: followUser_def Let_def)

subsection \<open>Properties of likes, saves and comments\<close>

lemma createNotification_ok:
  "notification_type n \<noteq> [] \<Longrightarrow> notification_message n \<noteq> [] \<Longrightarrow>
     createNotification s n = Inr (s\<lparr>notifications := notifications s @ [n]\<rparr>)"
  by (simp add: createNotification_def Notification_create_def)

lemma pull_absent: "x \<notin> set xs \<Longrightarrow> pull xs x = xs"
  by (simp add: pull_def filter_neq_notin)

lemma addToSet_idem: "addToSet (addToSet xs x) x = addToSet xs x"
  by (simp add: addToSet_def)

lemma addToSet_mem: "x \<in> set (addToSet xs x)"
  by (simp add: addToSet_def)

lemma addToSet_distinct: "distinct xs \<Longrightarrow> distinct (addToSet xs x)"
  by (simp add: addToSet_def)

text \<open>
  What the three handlers do on an existing post: the request succeeds, and
  the notifications grow by one entry, addressed to the owner, when the
  \<^verbatim>\<open>userId\<close> string of the request differs from the owner's id as
  \<^verbatim>\<open>toString()\<close> writes it, and by none when the two strings are equal.
\<close>

lemma notifications_after_action:
  assumes "posts s pid = Some p"
  shows "notifications (snd (likeOOTDPostController s pid u)) =
           notifications s @
           (if u \<noteq> post_userId p
            then [\<lparr>notification_userId = post_userId p, notification_type = ''like'',
                   relatedId = Some pid, isRead = False,
                   notification_message = ''User '' @ u @ '' liked your post.''\<rparr>]
            else []) \<and>
         notifications (snd (addCommentController now s pid u txt)) =
           notifications s @
           (if u \<noteq> post_userId p
            then [\<lparr>notification_userId = post_userId p, notification_type = ''comment'',
                   relatedId = Some pid, isRead = False,
                   notification_message =
                     ''User '' @ u @ '' commented on your post: '' @ [CHR 0x22] @ txt @ [CHR 0x22]\<rparr>]
            else []) \<and>
         notifications (snd (saveOOTDPostController s pid u)) =
           notifications s @
           (if u \<noteq> post_userId p
            then [\<lparr>notification_userId = post_userId p, notification_type = ''save'',
                   relatedId = Some pid, isRead = False,
                   notification_message = ''User '' @ u @ '' saved your post.''\<rparr>]
            else []) \<and>
         status (fst (likeOOTDPostController s pid u)) = 200 \<and>
         status (fst (addCommentController now s pid u txt)) = 200 \<and>
         status (fst (saveOOTDPostController s pid u)) = 200"
  using assms
  by (simp add: likeOOTDPostController_def addCommentController_def
        saveOOTDPostController_def Let_def createNotification_ok)

text \<open>
  C4. A like, comment or save of the owner of the post is meant to create
  no notification, and no notification is to be addressed to the actor. The
  handlers compare the \<^verbatim>\<open>userId\<close> string of the request with the owner's
  id in lower case, so the owner is taken for another user when the request
  writes the same id in upper case. In the store \<open>db5\<close> the post \<open>post_id\<close>
  belongs to \<open>owner_id\<close>. A like with that id in upper case is cast to
  \<open>owner_id\<close> and stored as the owner's like, the request answers 200, and
  one notification is created that is addressed to \<open>owner_id\<close>, the actor.
\<close>

theorem owner_notified_of_own_like:
  "posts db5 post_id = Some post2 \<and> post_userId post2 = owner_id \<and>
   ObjectId owner_id_upper = owner_id \<and>
   (\<exists>s'. likeOOTDPostController db5 post_id owner_id_upper =
           (Response 200 (MessageCount ''Post liked successfully'' 1), s') \<and>
         map_option likes (posts s' post_id) = Some [owner_id] \<and>
         notifications db5 = [] \<and>
         notifications s' =
           [\<lparr>notification_userId = owner_id, notification_type = ''like'',
             relatedId = Some post_id, isRead = False,
             notification_message = ''User '' @ owner_id_upper @ '' liked your post.''\<rparr>])"
proof -
  have c: "ObjectId owner_id_upper = owner_id"
    by (simp add: ObjectId_def lower_hex_def owner_id_upper_def owner_id_def)
  have n: "owner_id \<noteq> owner_id_upper"
    by (simp add: owner_id_upper_def owner_id_def)
  have p: "posts db5 post_id = Some post2"
    by (simp add: db5_def)
  have o: "post_userId post2 = owner_id" and l: "likes post2 = []"
    by (simp_all add: post2_def)
  have e: "notifications db5 = []"
    by (simp add: db5_def db0_def)
  from c n p o l e show ?thesis
    by (simp add: likeOOTDPostController_def Let_def createNotification_ok addToSet_def)
qed

lemma posts_after_like:
  "posts (snd (likeOOTDPostController s pid u)) =
     (case posts s pid of None \<Rightarrow> posts s
      | Some p \<Rightarrow> (posts s)(pid \<mapsto> p\<lparr>likes := addToSet (likes p) (ObjectId u)\<rparr>))"
  by (simp add: likeOOTDPostController_def Let_def createNotification_ok split: option.splits)

lemma posts_after_save:
  "posts (snd (saveOOTDPostController s pid u)) =
     (case posts s pid of None \<Rightarrow> posts s
      | Some p \<Rightarrow> (posts s)(pid \<mapsto> p\<lparr>saves := addToSet (saves p) (ObjectId u)\<rparr>))"
  by (simp add: saveOOTDPostController_def Let_def createNotification_ok split: option.splits)

lemma response_of_like:
  "fst (likeOOTDPostController s pid u) =
     (case posts s pid of None \<Rightarrow> Response 404 (Message ''OOTD post not found'')
      | Some p \<Rightarrow> Response 200 (MessageCount ''Post liked successfully''
                                   (length (addToSet (likes p) (ObjectId u)))))"
  by (simp add: likeOOTDPostController_def Let_def createNotification_ok split: option.splits)

text \<open>
  C8. Liking a post a second time with the same user id leaves the posts as
  the first like left them, so the likes of the post and their number are
  the same; the answer, which carries that number, is the same too. This
  holds for the handler and for \<^verbatim>\<open>likeOOTDPost\<close> of the service, and for
  saves likewise. After a like the user id, as the object id it is cast to,
  is among the likes, a like by a user already there changes nothing, and
  likes (saves) without repetition stay without repetition.
\<close>

theorem like_twice_same_as_once:
  "posts (snd (likeOOTDPostController (snd (likeOOTDPostController s pid u)) pid u)) =
     posts (snd (likeOOTDPostController s pid u)) \<and>
   fst (likeOOTDPostController (snd (likeOOTDPostController s pid u)) pid u) =
     fst (likeOOTDPostController s pid u) \<and>
   likeOOTDPost (snd (likeOOTDPost s pid u)) pid u = likeOOTDPost s pid u \<and>
   posts (snd (saveOOTDPostController (snd (saveOOTDPostController s pid u)) pid u)) =
     posts (snd (saveOOTDPostController s pid u)) \<and>
   (\<forall>p. posts s pid = Some p \<longrightarrow>
      (\<exists>p1. posts (snd (likeOOTDPostController s pid u)) pid = Some p1 \<and>
            likes p1 = addToSet (likes p) (ObjectId u) \<and>
            ObjectId u \<in> set (likes p1) \<and>
            (distinct (likes p) \<longrightarrow> distinct (likes p1)) \<and>
            (ObjectId u \<in> set (likes p) \<longrightarrow> likes p1 = likes p)) \<and>
      (\<exists>p2. posts (snd (saveOOTDPostController s pid u)) pid = Some p2 \<and>
            saves p2 = addToSet (saves p) (ObjectId u) \<and>
            ObjectId u \<in> set (saves p2) \<and>
            (distinct (saves p) \<longrightarrow> distinct (saves p2))))"
proof (cases "posts s pid")
  case None
  then show ?thesis
    by (simp add: posts_after_like posts_after_save response_of_like likeOOTDPost_def)
next
  case (Some p)
  then show ?thesis
    by (simp add: posts_after_like posts_after_save response_of_like likeOOTDPost_def
          Let_def addToSet_idem addToSet_mem addToSet_distinct)
      (simp add: addToSet_def)
qed

theorem like_twice_same_as_once_witness:
  "posts db2 ''p'' = Some post1 \<and> distinct (likes post1) \<and>
   (\<exists>p1. posts (snd (likeOOTDPostController db2 ''p'' ''a'')) ''p'' = Some p1 \<and>
         likes p1 = [''c'', ''a''] \<and> distinct (likes p1)) \<and>
   posts (snd (likeOOTDPostController (snd (likeOOTDPostController db2 ''p'' ''a'')) ''p'' ''a'')) =
     posts (snd (likeOOTDPostController db2 ''p'' ''a''))"
proof -
  have p: "posts db2 ''p'' = Some post1"
    by (simp add: db2_def)
  have d: "distinct (likes post1)"
    and l: "addToSet (likes post1) (ObjectId ''a'') = [''c'', ''a'']"
    by (simp_all add: post1_def addToSet_def ObjectId_def lower_hex_def)
  from like_twice_same_as_once [of db2 "''p''" "''a''"] p d l show ?thesis
    by auto
qed

text \<open>
  C10. On an existing post, an unlike by a user id that is not among the
  likes, and an unsave by a user id that is not among the saves, answer 200
  and leave the whole store, hence the likes, saves and comments of the
  post, as it was.
\<close>

theorem unlike_unsave_absent_noop:
  assumes "posts s pid = Some p"
  shows "(u \<notin> set (likes p) \<longrightarrow>
            unlikeOOTDPostController s pid u =
              (Response 200 (MessageCount ''Like removed successfully'' (length (likes p))), s) \<and>
            unlikeOOTDPost s pid u = (Some p, s)) \<and>
         (u \<notin> set (saves p) \<longrightarrow>
            unsaveOOTDPostController s pid u =
              (Response 200 (MessageCount ''Post unsaved successfully'' (length (saves p))), s))"
  using assms
  by (simp add: unlikeOOTDPostController_def unlikeOOTDPost_def unsaveOOTDPostController_def
        Let_def pull_absent map_upd_triv)


theorem unlike_unsave_absent_noop_witness:
  "posts db2 ''p'' = Some post1 \<and> ''a'' \<notin> set (likes post1) \<and> ''a'' \<notin> set (saves post1) \<and>
   unlikeOOTDPostController db2 ''p'' ''a'' =
     (Response 200 (MessageCount ''Like removed successfully'' 1), db2) \<and>
   unlikeOOTDPost db2 ''p'' ''a'' = (Some post1, db2) \<and>
   unsaveOOTDPostController db2 ''p'' ''a'' =
     (Response 200 (MessageCount ''Post unsaved successfully'' 0), db2)"
  using unlike_unsave_absent_noop [of db2 "''p''" post1 "''a''"]
  by (simp add: db2_def db0_def post1_def)

subsection \<open>Properties of the product upsert\<close>


lemma length_update_by_id [simp]: "length (update_by_id i f ps) = length ps"
  by (induction ps) auto





lemma map_fst_update_by_id [simp]: "map fst (update_by_id i f ps) = map fst ps"
  by (induction ps) auto

lemma map_of_update_by_id:
  "(i, e) \<in> set ps \<Longrightarrow> distinct (map fst ps) \<Longrightarrow> map_of (update_by_id i f ps) i = Some (f e)"
  by (induction ps) (auto simp: rev_image_eqI)














subsection \<open>Properties of closet item creation\<close>

text \<open>
  C7. When the request carries a product reference that resolves to a
  stored product and the item is created, each of type, color, image, name,
  season and occasion of the item is the product's value when the product
  has one (a value that is there and not empty), and the value of the
  request otherwise.
\<close>

theorem product_first_fields:
  assumes "productId d = Some pid" and "pid \<noteq> []"
    and "map_of (products s) pid = Some p"
    and "createClosetItem s newId d = Inr ((i, item), s')"
  shows "item_type item = (if truthy (product_type p) then product_type p else item_type d) \<and>
         item_color item = (if truthy (product_color p) then product_color p else item_color d) \<and>
         customImage item = (if truthy (product_image p) then product_image p else customImage d) \<and>
         item_name item = (if truthy (product_name p) then product_name p else item_name d) \<and>
         item_season item = (if truthy (product_season p) then product_season p else item_season d) \<and>
         item_occasion item = (if truthy (product_occasion p) then product_occasion p else item_occasion d) \<and>
         productId item = Some pid \<and> item_userId item = item_userId d \<and>
         i = newId \<and> closetItems s' = closetItems s @ [(newId, item)]"
proof -
  have t: "truthy (productId d)"
    using assms(1,2) by (simp add: truthy_def)
  let ?d = "d\<lparr>item_type := js_or (product_type p) (item_type d),
              item_color := js_or (product_color p) (item_color d),
              item_season := js_or (product_season p) (item_season d),
              item_occasion := js_or (product_occasion p) (item_occasion d),
              customImage := js_or (product_image p) (customImage d),
              item_name := js_or (product_name p) (item_name d)\<rparr>"
  from assms(4) have "ClosetItem_create s newId ?d = Inr ((i, item), s')"
    using t assms(1,3) by (simp add: createClosetItem_def split: sum.splits)
  then have "i = newId" 
    and "item = ?d\<lparr>item_tags := (case item_tags d of None \<Rightarrow> Some [] | Some t \<Rightarrow> Some t)\<rparr>"
    and "closetItems s' = closetItems s @ [(newId, item)]"
    by (auto simp: ClosetItem_create_def Let_def split: if_splits)
  then show ?thesis
    using assms(1) by (simp add: js_or_def)
qed

theorem product_first_fields_witness:
  "productId item_req = Some ''7'' \<and> map_of (products db3) ''7'' = Some shirt_red \<and>
   (\<exists>item s'. createClosetItem db3 ''9'' item_req = Inr ((''9'', item), s') \<and>
      item_type item = Some ''top'' \<and> item_color item = Some ''red'' \<and>
      customImage item = Some ''i.png'' \<and> item_name item = Some ''shirt'' \<and>
      item_season item = Some ''summer'' \<and> item_occasion item = Some ''casual'')"
proof -
  have c: "createClosetItem db3 ''9'' item_req =
             Inr ((''9'', item_req\<lparr>item_type := Some ''top'', item_color := Some ''red'',
                                  customImage := Some ''i.png'', item_name := Some ''shirt'',
                                  item_tags := Some []\<rparr>),
                  db3\<lparr>closetItems := [(''9'', item_req\<lparr>item_type := Some ''top'', item_color := Some ''red'',
                                  customImage := Some ''i.png'', item_name := Some ''shirt'',
                                  item_tags := Some []\<rparr>)]\<rparr>)"
    by (simp add: createClosetItem_def ClosetItem_create_def ClosetItem_valid_def
          Let_def js_or_def truthy_def db3_def db0_def item_req_def shirt_red_def)
  have h: "productId item_req = Some ''7''" "''7'' \<noteq> []" "map_of (products db3) ''7'' = Some shirt_red"
    by (simp_all add: item_req_def db3_def)
  from product_first_fields [OF h c] h c show ?thesis
    by (simp add: shirt_red_def item_req_def truthy_def)
qed


subsection \<open>Properties of the token middleware\<close>

lemma js_split_no_sep: "c \<notin> set xs \<Longrightarrow> js_split c xs = [xs]"
  by (induction xs) auto

lemma bearer_token_Bearer:
  "CHR '' '' \<notin> set tok \<Longrightarrow> bearer_token (''Bearer '' @ tok) = Some tok"
  by (simp add: bearer_token_def at_index_def js_split_no_sep)

lemma issued_token_window:
  assumes "honours sign verify seconds t \<lparr>payload_userId = Some userId\<rparr> (JWT_SECRET env)"
    and "authorization req = Some (''Bearer '' @ generateToken sign t env userId)"
  shows "verifyToken verify now env req =
           (if now < t + seconds ''1h''
            then Next (req\<lparr>body_userId := Some userId\<rparr>)
            else Respond (Response 403 (Message ''Failed to authenticate token'')))"
proof -
  let ?tok = "generateToken sign t env userId"
  have tok: "?tok = sign t \<lparr>payload_userId = Some userId\<rparr> (JWT_SECRET env) ''1h''"
    by (simp add: generateToken_def)
  have "CHR '' '' \<notin> set ?tok"
    using assms(1) unfolding tok honours_def by blast
  then have b: "bearer_token (''Bearer '' @ ?tok) = Some ?tok"
    by (rule bearer_token_Bearer)
  have v: "if now < t + seconds ''1h''
           then verify now (Some ?tok) (JWT_SECRET env) = Inr \<lparr>payload_userId = Some userId\<rparr>
           else isl (verify now (Some ?tok) (JWT_SECRET env))"
    using assms(1) unfolding tok honours_def by blast
  have ne: "''Bearer '' @ ?tok \<noteq> []"
    by simp
  show ?thesis
  proof (cases "now < t + seconds ''1h''")
    case True
    with v have "verify now (Some ?tok) (JWT_SECRET env) = Inr \<lparr>payload_userId = Some userId\<rparr>"
      by simp
    with True show ?thesis
      unfolding verifyToken_def
      by (simp only: assms(2) option.case ne if_False b) simp
  next
    case False
    with v obtain err where "verify now (Some ?tok) (JWT_SECRET env) = Inl err"
      by (auto simp: isl_def)
    with False show ?thesis
      unfolding verifyToken_def
      by (simp only: assms(2) option.case ne if_False b) simp
  qed
qed

text \<open>
  C9. The verification answers 401 when the \<^verbatim>\<open>Authorization\<close> header is
  missing (or empty), answers 403 when the library rejects the token taken
  from the header, and otherwise hands the request on with the user id of
  the decoded token in its body. A token is issued with the fixed time span
  \<^verbatim>\<open>'1h'\<close>, whoever the user is; with a library that honours the time span, a
  request that carries the issued token as bearer is handed on with the
  user's id while that span has not run out, and is answered 403 from then
  on.
\<close>

theorem token_issue_and_verify:
  "(authorization req = None \<or> authorization req = Some [] \<longrightarrow>
      verifyToken verify now env req = Respond (Response 401 (Message ''No token provided''))) \<and>
   (authorization req = Some h \<and> h \<noteq> [] \<and>
    verify now (bearer_token h) (JWT_SECRET env) = Inl err \<longrightarrow>
      verifyToken verify now env req =
        Respond (Response 403 (Message ''Failed to authenticate token''))) \<and>
   (authorization req = Some h \<and> h \<noteq> [] \<and>
    verify now (bearer_token h) (JWT_SECRET env) = Inr decoded \<longrightarrow>
      verifyToken verify now env req = Next (req\<lparr>body_userId := payload_userId decoded\<rparr>)) \<and>
   generateToken sign t env userId =
     sign t \<lparr>payload_userId = Some userId\<rparr> (JWT_SECRET env) ''1h'' \<and>
   (honours sign verify seconds t \<lparr>payload_userId = Some userId\<rparr> (JWT_SECRET env) \<and>
    authorization req = Some (''Bearer '' @ generateToken sign t env userId) \<longrightarrow>
      verifyToken verify now env req =
        (if now < t + seconds ''1h''
         then Next (req\<lparr>body_userId := Some userId\<rparr>)
         else Respond (Response 403 (Message ''Failed to authenticate token''))))"
proof (intro conjI impI)
  assume "authorization req = None \<or> authorization req = Some []"
  then show "verifyToken verify now env req = Respond (Response 401 (Message ''No token provided''))"
    by (auto simp: verifyToken_def)
next
  assume "authorization req = Some h \<and> h \<noteq> [] \<and>
    verify now (bearer_token h) (JWT_SECRET env) = Inl err"
  then show "verifyToken verify now env req =
        Respond (Response 403 (Message ''Failed to authenticate token''))"
    by (simp add: verifyToken_def)
next
  assume "authorization req = Some h \<and> h \<noteq> [] \<and>
    verify now (bearer_token h) (JWT_SECRET env) = Inr decoded"
  then show "verifyToken verify now env req = Next (req\<lparr>body_userId := payload_userId decoded\<rparr>)"
    by (simp add: verifyToken_def)
next
  show "generateToken sign t env userId =
     sign t \<lparr>payload_userId = Some userId\<rparr> (JWT_SECRET env) ''1h''"
    by (simp add: generateToken_def)
next
  assume a: "honours sign verify seconds t \<lparr>payload_userId = Some userId\<rparr> (JWT_SECRET env) \<and>
    authorization req = Some (''Bearer '' @ generateToken sign t env userId)"
  show "verifyToken verify now env req =
        (if now < t + seconds ''1h''
         then Next (req\<lparr>body_userId := Some userId\<rparr>)
         else Respond (Response 403 (Message ''Failed to authenticate token'')))"
    by (rule issued_token_window) (simp_all add: a)
qed

theorem token_issue_and_verify_witness:
  "honours toy_sign toy_verify (\<lambda>e. 3600) 0 \<lparr>payload_userId = Some ''a''\<rparr> (JWT_SECRET None) \<and>
   generateToken toy_sign 0 None ''a'' = ''tok'' \<and>
   verifyToken toy_verify 10 None \<lparr>authorization = Some ''Bearer tok'', body_userId = None\<rparr> =
     Next \<lparr>authorization = Some ''Bearer tok'', body_userId = Some ''a''\<rparr> \<and>
   verifyToken toy_verify 3600 None \<lparr>authorization = Some ''Bearer tok'', body_userId = None\<rparr> =
     Respond (Response 403 (Message ''Failed to authenticate token'')) \<and>
   verifyToken toy_verify 10 None \<lparr>authorization = Some ''Bearer nope'', body_userId = None\<rparr> =
     Respond (Response 403 (Message ''Failed to authenticate token'')) \<and>
   verifyToken toy_verify 10 None \<lparr>authorization = None, body_userId = Some ''a''\<rparr> =
     Respond (Response 401 (Message ''No token provided''))"
proof -
  have h: "honours toy_sign toy_verify (\<lambda>e. 3600) 0 \<lparr>payload_userId = Some ''a''\<rparr> (JWT_SECRET None)"
    by (simp add: honours_def toy_sign_def toy_verify_def)
  have g: "generateToken toy_sign 0 None ''a'' = ''tok''"
    by (simp add: generateToken_def toy_sign_def)
  have b: "bearer_token ''Bearer nope'' = Some ''nope''"
    by (simp add: bearer_token_def at_index_def)
  have v: "toy_verify 10 (Some ''nope'') (JWT_SECRET None) = Inl (Error ''jwt expired'')"
    by (simp add: toy_verify_def)
  note t = token_issue_and_verify [where sign = toy_sign and verify = toy_verify
             and seconds = "\<lambda>e. 3600" and t = 0 and env = None and userId = "''a''"]
  have 1: "verifyToken toy_verify 10 None \<lparr>authorization = Some ''Bearer tok'', body_userId = None\<rparr> =
     Next \<lparr>authorization = Some ''Bearer tok'', body_userId = Some ''a''\<rparr>"
    using t [where now = 10 and req = "\<lparr>authorization = Some ''Bearer tok'', body_userId = None\<rparr>"] h
    by (simp add: generateToken_def toy_sign_def)
  have 2: "verifyToken toy_verify 3600 None \<lparr>authorization = Some ''Bearer tok'', body_userId = None\<rparr> =
     Respond (Response 403 (Message ''Failed to authenticate token''))"
    using t [where now = 3600 and req = "\<lparr>authorization = Some ''Bearer tok'', body_userId = None\<rparr>"] h
    by (simp add: generateToken_def toy_sign_def)
  have 3: "verifyToken toy_verify 10 None \<lparr>authorization = Some ''Bearer nope'', body_userId = None\<rparr> =
     Respond (Response 403 (Message ''Failed to authenticate token''))"
    using t [where now = 10 and req = "\<lparr>authorization = Some ''Bearer nope'', body_userId = None\<rparr>"
               and h = "''Bearer nope''" and err = "Error ''jwt expired''"] b v
    by simp
  have 4: "verifyToken toy_verify 10 None \<lparr>authorization = None, body_userId = Some ''a''\<rparr> =
     Respond (Response 401 (Message ''No token provided''))"
    using t [where now = 10 and req = "\<lparr>authorization = None, body_userId = Some ''a''\<rparr>"]
    by simp
  from h g 1 2 3 4 show ?thesis by simp
qed

end
